theory Spec2Isabelle
  imports Main "HOL-Library.Word"
begin

section \<open>El Torito boot image extraction (eltorito.py)\<close>

text \<open>
  The module reads three or four 512-byte blocks of an ISO 9660 image: the boot record
  volume descriptor at physical sector 17, the boot catalog it points to, for hard-disk
  emulation the first block of the embedded image, and finally the embedded image itself.
  Raised exceptions are values of the type \<open>error\<close>; a function that can raise returns
  \<open>error + 'a\<close>, with \<open>Inl\<close> for the exception.
\<close>

subsection \<open>Bytes, Python values, exceptions\<close>

type_synonym byte = "8 word"

text \<open>
  \<open>ElToritoError\<close> is the module's only exception class; its instances differ by message.
  The other constructors are the built-in exceptions that the operations used by
  \<open>extract\<close> raise: \<open>bytes.decode("ascii")\<close> on a byte above 127, \<open>getattr\<close> on a
  missing attribute, \<open>int\<close> on text that is no integer, \<open>struct.unpack\<close> on a buffer
  of the wrong length, and \<open>seek\<close> to a negative offset.
\<close>

datatype error =
    ElToritoError string
  | UnicodeDecodeError
  | AttributeError
  | ValueError
  | StructError
  | SeekError

text \<open>The values that \<open>extract\<close> hands to the handler are integers and strings.\<close>

datatype pyval = PInt int | PStr string

definition V_SECTOR_SIZE :: nat where
  "V_SECTOR_SIZE = 512"

definition SECTOR_SIZE :: nat where
  "SECTOR_SIZE = 2048"

subsection \<open>Python's \<open>str\<close>, \<open>str.strip\<close> and \<open>int\<close>\<close>

text \<open>\<open>str(n)\<close> of an integer: its decimal digits, with a minus sign when negative.\<close>

fun dec_nat :: "nat \<Rightarrow> string" where
  "dec_nat n =
     (if n < 10 then [char_of (48 + n)]
      else dec_nat (n div 10) @ [char_of (48 + n mod 10)])"

declare dec_nat.simps [simp del]

definition py_str :: "pyval \<Rightarrow> string" where
  "py_str v =
     (case v of
        PStr s \<Rightarrow> s
      | PInt n \<Rightarrow> if n < 0 then CHR ''-'' # dec_nat (nat (- n)) else dec_nat (nat n))"

text \<open>
  \<open>str.isspace\<close> on the code points below 256: tab to carriage return, the four
  separators 28 to 31, the space, NEL (133) and the no-break space (160).
\<close>

definition py_isspace :: "char \<Rightarrow> bool" where
  "py_isspace c =
     (let n = (of_char c :: nat)
      in (9 \<le> n \<and> n \<le> 13) \<or> (28 \<le> n \<and> n \<le> 32) \<or> n = 133 \<or> n = 160)"

definition strip :: "string \<Rightarrow> string" where
  "strip s = rev (dropWhile py_isspace (rev (dropWhile py_isspace s)))"

definition is_digit :: "char \<Rightarrow> bool" where
  "is_digit c = (48 \<le> (of_char c :: nat) \<and> (of_char c :: nat) \<le> 57)"

text \<open>
  The digits of an integer literal as \<open>int\<close> accepts them: at least one digit, and single
  underscores only between two digits. The result is the digits without the underscores.
\<close>

fun int_digits :: "string \<Rightarrow> string option" where
  "int_digits [] = None"
| "int_digits [c] = (if is_digit c then Some [c] else None)"
| "int_digits (c # d # cs) =
     (if \<not> is_digit c then None
      else if d = CHR ''_'' then map_option ((#) c) (int_digits cs)
      else map_option ((#) c) (int_digits (d # cs)))"

definition digits_val :: "string \<Rightarrow> nat" where
  "digits_val ds = foldl (\<lambda>a c. 10 * a + ((of_char c :: nat) - 48)) 0 ds"

text \<open>
  \<open>int(s)\<close> in base 10: surrounding whitespace is stripped, one sign is allowed, and
  anything else than digits raises \<open>ValueError\<close>. (The interpreter's limit on the length
  of a digit string is far above the ten digits of a 32-bit field and is left out.)
\<close>

definition py_int :: "string \<Rightarrow> error + int" where
  "py_int s =
     (let t = strip s;
          (neg, u) =
            (case t of
               [] \<Rightarrow> (False, t)
             | c # r \<Rightarrow>
                 if c = CHR ''-'' then (True, r)
                 else if c = CHR ''+'' then (False, r)
                 else (False, t))
      in case int_digits u of
           None \<Rightarrow> Inl ValueError
         | Some ds \<Rightarrow> Inr (if neg then - int (digits_val ds) else int (digits_val ds)))"

subsection \<open>The reporting handler\<close>

text \<open>
  \<open>extract\<close> calls two methods of its handler argument, \<open>set\<close> and \<open>get\<close>. A handler
  implementation is the pair of these methods over its own state \<open>'h\<close>; \<open>get\<close> may raise.
\<close>

record 'h sink =
  sink_set :: "string \<Rightarrow> pyval \<Rightarrow> 'h \<Rightarrow> 'h"
  sink_get :: "string \<Rightarrow> 'h \<Rightarrow> error + pyval"

text \<open>
  The class \<open>DetailHandler\<close>: the text written so far to \<open>_stdout\<close> (\<open>None\<close> when the
  handler was built with \<open>stdout=None\<close>) and the attributes attached by \<open>setattr\<close>.
  \<open>extract\<close> uses twelve fixed keys, none of which is \<open>_stdout\<close>, \<open>set\<close> or \<open>get\<close>, so
  the attributes are kept apart from the object's own members.
\<close>

record detail_handler =
  stdout :: "string option"
  attrs :: "string \<rightharpoonup> pyval"

definition DetailHandler_set :: "string \<Rightarrow> pyval \<Rightarrow> detail_handler \<Rightarrow> detail_handler" where
  "DetailHandler_set key val h =
     (let h1 =
            (case stdout h of
               None \<Rightarrow> h
             | Some out \<Rightarrow>
                 h\<lparr>stdout := Some (out @ ''- '' @ key @ '' -> '' @ py_str val @ [CHR 0x0A])\<rparr>)
      in h1\<lparr>attrs := (attrs h1)(key \<mapsto> val)\<rparr>)"

definition DetailHandler_get :: "string \<Rightarrow> detail_handler \<Rightarrow> error + pyval" where
  "DetailHandler_get key h =
     (case attrs h key of None \<Rightarrow> Inl AttributeError | Some v \<Rightarrow> Inr v)"

definition DetailHandler :: "detail_handler sink" where
  "DetailHandler = \<lparr>sink_set = DetailHandler_set, sink_get = DetailHandler_get\<rparr>"

text \<open>A new \<open>DetailHandler(stdout)\<close> has no attribute yet.\<close>

definition new_handler :: "string option \<Rightarrow> detail_handler" where
  "new_handler out = \<lparr>stdout = out, attrs = Map.empty\<rparr>"

text \<open>
  A handler that overrides \<open>set\<close> to discard every reported pair and inherits \<open>get\<close>:
  no attribute is ever attached, so every \<open>getattr\<close> raises.
\<close>

definition DroppingHandler :: "unit sink" where
  "DroppingHandler =
     \<lparr>sink_set = (\<lambda>key val h. h), sink_get = (\<lambda>key h. Inl AttributeError)\<rparr>"

text \<open>
  A handler that records the pairs in a list, newest first, and looks a key up there.
\<close>

definition PairListHandler :: "(string \<times> pyval) list sink" where
  "PairListHandler =
     \<lparr>sink_set = (\<lambda>key val h. (key, val) # h),
      sink_get = (\<lambda>key h. case map_of h key of None \<Rightarrow> Inl AttributeError | Some v \<Rightarrow> Inr v)\<rparr>"

subsection \<open>The input stream\<close>

text \<open>
  A seekable binary stream, as \<open>open(path, "rb")\<close> or \<open>io.BytesIO\<close> give it: its bytes
  and its position. \<open>seek(offset, 0)\<close> moves to an absolute offset, which may lie past
  the end, and refuses a negative one; \<open>read(n)\<close> returns the bytes from the position
  on, \<open>n\<close> of them unless the stream ends before, and advances by their number.
\<close>

record stream =
  data :: "byte list"
  pos :: nat

definition stream_seek :: "int \<Rightarrow> stream \<Rightarrow> error + stream" where
  "stream_seek offset f = (if offset < 0 then Inl SeekError else Inr (f\<lparr>pos := nat offset\<rparr>))"

definition stream_read :: "nat \<Rightarrow> stream \<Rightarrow> byte list \<times> stream" where
  "stream_read n f =
     (let bs = take n (drop (pos f) (data f))
      in (bs, f\<lparr>pos := pos f + length bs\<rparr>))"

text \<open>\<open>_get_sector(number, count, handle)\<close>\<close>

definition get_sector :: "int \<Rightarrow> nat \<Rightarrow> stream \<Rightarrow> error + (byte list \<times> stream)" where
  "get_sector number count handle =
     (case stream_seek (number * int SECTOR_SIZE) handle of
        Inl e \<Rightarrow> Inl e
      | Inr h1 \<Rightarrow>
          let (sector, h2) = stream_read (V_SECTOR_SIZE * count) h1
          in if length sector \<noteq> V_SECTOR_SIZE * count
             then Inl (ElToritoError ''invalid sector read'')
             else Inr (sector, h2))"

subsection \<open>Slices, \<open>struct.unpack\<close> and \<open>bytes.decode\<close>\<close>

text \<open>\<open>xs[i:j]\<close> for \<open>0 \<le> i \<le> j\<close>; a slice past the end is shorter, never an error.\<close>

definition slice :: "nat \<Rightarrow> nat \<Rightarrow> 'a list \<Rightarrow> 'a list" where
  "slice i j xs = take (j - i) (drop i xs)"

text \<open>An unsigned little-endian integer (\<open>B\<close>, \<open>H\<close> and \<open>L\<close> under \<open><\<close>).\<close>

fun le_uint :: "byte list \<Rightarrow> nat" where
  "le_uint [] = 0"
| "le_uint (b # bs) = unat b + 256 * le_uint bs"

text \<open>
  The four format strings of the module. \<open>struct.unpack\<close> raises unless the buffer has
  exactly the size of the format.
\<close>

definition unpack_B5sB32s32sL ::
  "byte list \<Rightarrow> error + (nat \<times> byte list \<times> nat \<times> byte list \<times> byte list \<times> nat)" where
  "unpack_B5sB32s32sL b =
     (if length b \<noteq> 75 then Inl StructError
      else Inr (le_uint (slice 0 1 b), slice 1 6 b, le_uint (slice 6 7 b),
                slice 7 39 b, slice 39 71 b, le_uint (slice 71 75 b)))"

definition unpack_BBH24sHBB ::
  "byte list \<Rightarrow> error + (nat \<times> nat \<times> nat \<times> byte list \<times> nat \<times> nat \<times> nat)" where
  "unpack_BBH24sHBB b =
     (if length b \<noteq> 32 then Inl StructError
      else Inr (le_uint (slice 0 1 b), le_uint (slice 1 2 b), le_uint (slice 2 4 b),
                slice 4 28 b, le_uint (slice 28 30 b), le_uint (slice 30 31 b),
                le_uint (slice 31 32 b)))"

definition unpack_BBHBBHLB ::
  "byte list \<Rightarrow> error + (nat \<times> nat \<times> nat \<times> nat \<times> nat \<times> nat \<times> nat \<times> nat)" where
  "unpack_BBHBBHLB b =
     (if length b \<noteq> 13 then Inl StructError
      else Inr (le_uint (slice 0 1 b), le_uint (slice 1 2 b), le_uint (slice 2 4 b),
                le_uint (slice 4 5 b), le_uint (slice 5 6 b), le_uint (slice 6 8 b),
                le_uint (slice 8 12 b), le_uint (slice 12 13 b)))"

definition unpack_8sLL :: "byte list \<Rightarrow> error + (byte list \<times> nat \<times> nat)" where
  "unpack_8sLL b =
     (if length b \<noteq> 16 then Inl StructError
      else Inr (slice 0 8 b, le_uint (slice 8 12 b), le_uint (slice 12 16 b)))"

definition is_ascii :: "byte list \<Rightarrow> bool" where
  "is_ascii bs = list_all (\<lambda>b. unat b < 128) bs"

definition ascii_text :: "byte list \<Rightarrow> string" where
  "ascii_text bs = map (\<lambda>b. char_of (unat b)) bs"

definition decode_ascii :: "byte list \<Rightarrow> error + string" where
  "decode_ascii bs = (if is_ascii bs then Inr (ascii_text bs) else Inl UnicodeDecodeError)"

text \<open>The characters kept in the specifier: \<open>'A' \<le> x \<le> 'Z'\<close> or the space.\<close>

definition upper_or_space :: "char \<Rightarrow> bool" where
  "upper_or_space x =
     ((65 \<le> (of_char x :: nat) \<and> (of_char x :: nat) \<le> 90) \<or> (of_char x :: nat) = 32)"

subsection \<open>\<open>extract(input_stream, handler)\<close>\<close>

text \<open>
  Sequencing of statements that can raise: the first exception ends the function.
\<close>

definition and_then :: "error + 'a \<Rightarrow> ('a \<Rightarrow> error + 'b) \<Rightarrow> error + 'b" where
  "and_then m k = (case m of Inl e \<Rightarrow> Inl e | Inr x \<Rightarrow> k x)"

text \<open>
  Both arguments may be \<open>None\<close>. The statements follow the source in their order; the
  stream and the handler are threaded through the calls that change them. The three
  floppy sizes are \<open>int(k * 1024 / 512)\<close> in the source: the float quotient is a whole
  number, so the truncation is the integer quotient.
\<close>

definition "extract" :: "'h sink \<Rightarrow> stream option \<Rightarrow> 'h option \<Rightarrow> error + byte list" where
  "extract sink input_stream handler =
     (if input_stream = None \<or> handler = None
      then Inl (ElToritoError ''invalid arguments for extraction, all inputs must be set'')
      else
       let f0 = the input_stream; h0 = the handler in
       and_then (get_sector 17 1 f0) (\<lambda>(sector, f1).
       and_then (unpack_B5sB32s32sL (slice 0 75 sector)) (\<lambda>(s0, s1, s2, s3, s4, s5).
       and_then (decode_ascii s1) (\<lambda>iso.
       let h1 = sink_set sink ''iso'' (PStr iso) h0;
           h2 = sink_set sink ''vers'' (PInt (int s2)) h1 in
       and_then (decode_ascii s3) (\<lambda>spec_text.
       let spec = strip spec_text;
           h3 = sink_set sink ''spec'' (PStr (filter upper_or_space spec)) h2;
           h4 = sink_set sink ''partition'' (PInt (int s5)) h3 in
       and_then (sink_get sink ''iso'' h4) (\<lambda>iso_v.
       if iso_v \<noteq> PStr ''CD001''
       then Inl (ElToritoError ''this is not a bootable cd-image'') else
       and_then (sink_get sink ''spec'' h4) (\<lambda>spec_v.
       if strip (py_str spec_v) \<noteq> ''EL TORITO SPECIFICATION''
       then Inl (ElToritoError ''this is not a bootable cd-image'') else
       and_then (sink_get sink ''partition'' h4) (\<lambda>partition_v.
       and_then (py_int (py_str partition_v)) (\<lambda>partition.
       and_then (get_sector partition 1 f1) (\<lambda>(sector2, f2).
       and_then (unpack_BBH24sHBB (slice 0 32 sector2)) (\<lambda>(header, v1, v2, v3, v4, five, aa).
       let h5 = sink_set sink ''platform'' (PInt (int v1)) h4 in
       and_then (decode_ascii v3) (\<lambda>manufacturer.
       let h6 = sink_set sink ''manufacturer'' (PStr manufacturer) h5 in
       if header \<noteq> 1 \<or> five \<noteq> 0x55 \<or> aa \<noteq> 0xaa
       then Inl (ElToritoError ''invalid validation entry'') else
       and_then (sink_get sink ''platform'' h6) (\<lambda>platform_v.
       and_then (py_int (py_str platform_v)) (\<lambda>platform.
       let platform_string =
             (if platform = 0 then ''x86''
              else if platform = 1 then ''PowerPC''
              else if platform = 2 then ''Mac''
              else ''unknown'');
           h7 = sink_set sink ''platform_string'' (PStr platform_string) h6 in
       and_then (unpack_BBHBBHLB (slice 32 45 sector2)) (\<lambda>(boot, i1, load, sys, i4, cnt, start, i7).
       let h8 = sink_set sink ''media'' (PInt (int i1)) h7 in
       if boot \<noteq> 0x88
       then Inl (ElToritoError ''boot indicator is not 0x88, not bootable'') else
       and_then (sink_get sink ''media'' h8) (\<lambda>media_v.
       and_then (py_int (py_str media_v)) (\<lambda>media.
       and_then
         (if media = 0 then Inr (''no emulation'', 0, f2)
          else if media = 1 then Inr (''1.2meg floppy'', 1200 * 1024 div V_SECTOR_SIZE, f2)
          else if media = 2 then Inr (''1.44meg floppy'', 1440 * 1024 div V_SECTOR_SIZE, f2)
          else if media = 3 then Inr (''2.88meg floppy'', 2880 * 1024 div V_SECTOR_SIZE, f2)
          else if media = 4 then
            and_then (get_sector (int start) 1 f2) (\<lambda>(mbr, f3).
            and_then (unpack_8sLL (slice 446 462 mbr)) (\<lambda>(p0, first, size).
            Inr (''harddisk'', first + size, f3)))
          else Inr (''unknown'', 0, f2))
         (\<lambda>(media_type, count0, f3).
       let count = (if count0 = 0 then cnt else count0);
           h9 = sink_set sink ''media_type'' (PStr media_type) h8;
           h10 = sink_set sink ''sector_size'' (PInt (int V_SECTOR_SIZE)) h9;
           h11 = sink_set sink ''sector_count'' (PInt (int count)) h10;
           h12 = sink_set sink ''sector_start'' (PInt (int start)) h11 in
       and_then (get_sector (int start) count f3) (\<lambda>(image, f4).
       Inr image)))))))))))))))))))"

section \<open>The image format as the specification describes it\<close>

subsection \<open>The error taxonomy\<close>

text \<open>
  The specification names five errors. In the module they are the five messages of
  \<open>ElToritoError\<close>.
\<close>

abbreviation TruncatedImageError :: error where
  "TruncatedImageError \<equiv> ElToritoError ''invalid sector read''"

abbreviation NotBootableError :: error where
  "NotBootableError \<equiv> ElToritoError ''this is not a bootable cd-image''"

abbreviation InvalidValidationEntryError :: error where
  "InvalidValidationEntryError \<equiv> ElToritoError ''invalid validation entry''"

abbreviation NotBootableEntryError :: error where
  "NotBootableEntryError \<equiv> ElToritoError ''boot indicator is not 0x88, not bootable''"

abbreviation InvalidArgumentError :: error where
  "InvalidArgumentError \<equiv>
     ElToritoError ''invalid arguments for extraction, all inputs must be set''"

definition taxonomy :: "error list" where
  "taxonomy =
     [TruncatedImageError, NotBootableError, InvalidValidationEntryError,
      NotBootableEntryError, InvalidArgumentError]"

subsection \<open>The fields, by byte offset\<close>

text \<open>
  The data model of the specification, over the bytes \<open>d\<close> of the source: the boot record
  at physical sector 17, the catalog at the sector it names, with the validation entry
  at bytes 0 to 31 and the initial entry at bytes 32 to 44, and the partition table
  entry at bytes 446 to 461 of the first block of the embedded image.
\<close>

definition boot_record :: "byte list \<Rightarrow> byte list" where
  "boot_record d = take 512 (drop (17 * 2048) d)"

definition boot_system_identifier :: "byte list \<Rightarrow> byte list" where
  "boot_system_identifier d = slice 1 6 (boot_record d)"

definition boot_system_specifier :: "byte list \<Rightarrow> byte list" where
  "boot_system_specifier d = slice 7 39 (boot_record d)"

definition boot_catalog_sector :: "byte list \<Rightarrow> nat" where
  "boot_catalog_sector d = le_uint (slice 71 75 (boot_record d))"

definition catalog :: "byte list \<Rightarrow> byte list" where
  "catalog d = take 512 (drop (boot_catalog_sector d * 2048) d)"

definition header_id :: "byte list \<Rightarrow> nat" where
  "header_id d = le_uint (slice 0 1 (catalog d))"

definition platform_id :: "byte list \<Rightarrow> nat" where
  "platform_id d = le_uint (slice 1 2 (catalog d))"

definition manufacturer_id :: "byte list \<Rightarrow> byte list" where
  "manufacturer_id d = slice 4 28 (catalog d)"

definition key_byte_1 :: "byte list \<Rightarrow> nat" where
  "key_byte_1 d = le_uint (slice 30 31 (catalog d))"

definition key_byte_2 :: "byte list \<Rightarrow> nat" where
  "key_byte_2 d = le_uint (slice 31 32 (catalog d))"

definition boot_indicator :: "byte list \<Rightarrow> nat" where
  "boot_indicator d = le_uint (slice 32 33 (catalog d))"

definition media_type :: "byte list \<Rightarrow> nat" where
  "media_type d = le_uint (slice 33 34 (catalog d))"

definition sector_count :: "byte list \<Rightarrow> nat" where
  "sector_count d = le_uint (slice 38 40 (catalog d))"

definition load_rba :: "byte list \<Rightarrow> nat" where
  "load_rba d = le_uint (slice 40 44 (catalog d))"

definition partition_sector :: "byte list \<Rightarrow> byte list" where
  "partition_sector d = take 512 (drop (load_rba d * 2048) d)"

definition first_sector_lba :: "byte list \<Rightarrow> nat" where
  "first_sector_lba d = le_uint (slice 454 458 (partition_sector d))"

definition sector_count_lba :: "byte list \<Rightarrow> nat" where
  "sector_count_lba d = le_uint (slice 458 462 (partition_sector d))"

subsection \<open>The stages\<close>

text \<open>
  \<open>read_sectors\<close> of the specification: \<open>block_count * 512\<close> bytes from byte
  \<open>index * 2048\<close> on, or \<open>TruncatedImageError\<close> when the source has fewer.
\<close>

definition read_sectors :: "nat \<Rightarrow> nat \<Rightarrow> byte list \<Rightarrow> error + byte list" where
  "read_sectors index block_count d =
     (let bs = take (block_count * 512) (drop (index * 2048) d)
      in if length bs < block_count * 512 then Inl TruncatedImageError else Inr bs)"

text \<open>The specifier filtered to upper-case letters and spaces.\<close>

definition filtered_specifier :: "byte list \<Rightarrow> string" where
  "filtered_specifier d = filter upper_or_space (ascii_text (boot_system_specifier d))"

text \<open>
  The specifier as the module compares it: stripped, filtered, and stripped once more.
\<close>

definition compared_specifier :: "byte list \<Rightarrow> string" where
  "compared_specifier d =
     strip (filter upper_or_space (strip (ascii_text (boot_system_specifier d))))"

definition boot_record_ok :: "byte list \<Rightarrow> bool" where
  "boot_record_ok d =
     (ascii_text (boot_system_identifier d) = ''CD001'' \<and>
      compared_specifier d = ''EL TORITO SPECIFICATION'')"

definition validation_ok :: "byte list \<Rightarrow> bool" where
  "validation_ok d = (header_id d = 1 \<and> key_byte_1 d = 0x55 \<and> key_byte_2 d = 0xAA)"

text \<open>Steps 5 and 6 of the catalog decoder, with the hard-disk side read.\<close>

definition candidate_sector_count :: "byte list \<Rightarrow> nat" where
  "candidate_sector_count d =
     (if media_type d = 1 then 2400
      else if media_type d = 2 then 2880
      else if media_type d = 3 then 5760
      else if media_type d = 4 then first_sector_lba d + sector_count_lba d
      else 0)"

definition resolved_sector_count :: "byte list \<Rightarrow> nat" where
  "resolved_sector_count d =
     (if candidate_sector_count d = 0 then sector_count d else candidate_sector_count d)"

text \<open>
  A source passes the descriptor walk when the boot record and the catalog can be read,
  their text fields are ASCII, and the three fixed checks hold.
\<close>

definition descriptors_accepted :: "byte list \<Rightarrow> bool" where
  "descriptors_accepted d =
     (length (boot_record d) = 512 \<and> is_ascii (boot_system_identifier d) \<and>
      is_ascii (boot_system_specifier d) \<and> boot_record_ok d \<and>
      length (catalog d) = 512 \<and> is_ascii (manufacturer_id d) \<and>
      validation_ok d \<and> boot_indicator d = 0x88)"

text \<open>The outcome of an extraction, stage by stage, in terms of the fields.\<close>

definition extract_outcome :: "byte list \<Rightarrow> error + byte list" where
  "extract_outcome d =
     (if length (boot_record d) \<noteq> 512 then Inl TruncatedImageError
      else if \<not> is_ascii (boot_system_identifier d) then Inl UnicodeDecodeError
      else if \<not> is_ascii (boot_system_specifier d) then Inl UnicodeDecodeError
      else if \<not> boot_record_ok d then Inl NotBootableError
      else if length (catalog d) \<noteq> 512 then Inl TruncatedImageError
      else if \<not> is_ascii (manufacturer_id d) then Inl UnicodeDecodeError
      else if \<not> validation_ok d then Inl InvalidValidationEntryError
      else if boot_indicator d \<noteq> 0x88 then Inl NotBootableEntryError
      else if media_type d = 4 \<and> length (partition_sector d) \<noteq> 512
      then Inl TruncatedImageError
      else read_sectors (load_rba d) (resolved_sector_count d) d)"

text \<open>
  A handler keeps what it is given when \<open>get\<close> returns the value last \<open>set\<close> under the
  key, and \<open>set\<close> leaves the other keys alone.
\<close>

definition keeps_attributes :: "'h sink \<Rightarrow> bool" where
  "keeps_attributes s =
     (\<forall>key key' v h.
        sink_get s key (sink_set s key' v h) =
          (if key = key' then Inr v else sink_get s key h))"

subsection \<open>Example images\<close>

text \<open>
  A boot record with the given identifier (5 bytes) and specifier (32 bytes), naming
  sector 18 as the catalog; a catalog with the given validation and initial entry
  fields (the sector count below 256, the start sector below 256); and an image with the
  boot record at sector 17, the catalog at sector 18, then \<open>gap\<close> zero bytes and the
  payload.
\<close>

definition boot_sector :: "byte list \<Rightarrow> byte list \<Rightarrow> byte list" where
  "boot_sector ident spec =
     [0] @ ident @ [1] @ spec @ replicate 32 0 @ [18, 0, 0, 0] @ replicate 437 0"

definition catalog_sector ::
  "byte \<Rightarrow> byte \<Rightarrow> byte list \<Rightarrow> byte \<Rightarrow> byte \<Rightarrow> byte \<Rightarrow> byte \<Rightarrow> byte \<Rightarrow> byte \<Rightarrow> byte list" where
  "catalog_sector header platform manufacturer k1 k2 boot media cnt start =
     [header, platform, 0, 0] @ manufacturer @ [0, 0, k1, k2] @
     [boot, media, 0, 0, 0, 0, cnt, 0, start, 0, 0, 0, 0] @ replicate 467 0"

definition iso_image :: "byte list \<Rightarrow> byte list \<Rightarrow> nat \<Rightarrow> byte list \<Rightarrow> byte list" where
  "iso_image boot cat gap payload =
     replicate 34816 0 @ boot @ replicate 1536 0 @ cat @ replicate gap 0 @ payload"

definition cd001 :: "byte list" where
  "cd001 = map of_char ''CD001''"

definition el_torito_specifier :: "byte list" where
  "el_torito_specifier = map of_char ''EL TORITO SPECIFICATION'' @ replicate 9 0"

definition no_manufacturer :: "byte list" where
  "no_manufacturer = replicate 24 0"

text \<open>
  A well-formed image: valid boot record and validation entry, boot indicator 0x88, the
  given media type, catalog sector count and start sector (at least 19), and the payload
  at the start sector.
\<close>

definition standard_image :: "byte \<Rightarrow> byte \<Rightarrow> byte \<Rightarrow> byte list \<Rightarrow> byte list" where
  "standard_image media cnt start payload =
     iso_image (boot_sector cd001 el_torito_specifier)
       (catalog_sector 1 0 no_manufacturer 0x55 0xAA 0x88 media cnt start)
       (unat start * 2048 - 37376) payload"

definition source :: "byte list \<Rightarrow> stream option" where
  "source d = Some \<lparr>data = d, pos = 0\<rparr>"

text \<open>No emulation, 40 sectors from sector 25: 20480 bytes at offset 51200.\<close>

definition no_emulation_image :: "byte list" where
  "no_emulation_image = standard_image 0 40 25 (replicate 20480 0xAB)"

text \<open>The same catalog over a source that ends one byte early.\<close>

definition one_byte_short_image :: "byte list" where
  "one_byte_short_image = standard_image 0 40 25 (replicate 20479 0xAB)"

text \<open>
  No emulation with a catalog sector count of 0 and start sector 19, over a source of
  \<open>19 * 2048 - 1\<close> bytes.
\<close>

definition zero_count_short_image :: "byte list" where
  "zero_count_short_image =
     iso_image (boot_sector cd001 el_torito_specifier)
       (catalog_sector 1 0 no_manufacturer 0x55 0xAA 0x88 0 0 19) 1535 []"

text \<open>A boot record whose identifier is \<open>CD00\<close> followed by the byte 0xFF.\<close>

definition non_ascii_identifier_image :: "byte list" where
  "non_ascii_identifier_image =
     iso_image (boot_sector [0x43, 0x44, 0x30, 0x30, 0xFF] el_torito_specifier) [] 0 []"

text \<open>
  A valid boot record, and a validation entry with header id 0 and a manufacturer field
  that starts with the byte 0xFF.
\<close>

definition non_ascii_manufacturer_image :: "byte list" where
  "non_ascii_manufacturer_image =
     iso_image (boot_sector cd001 el_torito_specifier)
       (catalog_sector 0 0 (0xFF # replicate 23 0) 0x55 0xAA 0x88 0 40 25)
       13824 (replicate 20480 0xAB)"

text \<open>A validation entry with the key bytes swapped.\<close>

definition swapped_key_image :: "byte list" where
  "swapped_key_image =
     iso_image (boot_sector cd001 el_torito_specifier)
       (catalog_sector 1 0 no_manufacturer 0xAA 0x55 0x88 0 40 25)
       13824 (replicate 20480 0xAB)"

text \<open>
  A specifier field of a NUL byte, a space, the specification text and NUL padding.
\<close>

definition padded_specifier :: "byte list" where
  "padded_specifier = [0, 0x20] @ map of_char ''EL TORITO SPECIFICATION'' @ replicate 7 0"

definition padded_specifier_image :: "byte list" where
  "padded_specifier_image =
     iso_image (boot_sector cd001 padded_specifier)
       (catalog_sector 1 0 no_manufacturer 0x55 0xAA 0x88 0 40 25)
       13824 (replicate 20480 0xAB)"

text \<open>The identifier \<open>CD002\<close> over an otherwise well-formed image.\<close>

definition cd002 :: "byte list" where
  "cd002 = map of_char ''CD002''"

definition cd002_image :: "byte list" where
  "cd002_image =
     iso_image (boot_sector cd002 el_torito_specifier)
       (catalog_sector 1 0 no_manufacturer 0x55 0xAA 0x88 0 40 25)
       13824 (replicate 20480 0xAB)"

text \<open>
  Hard-disk emulation from sector 19; the first partition table entry has first sector
  100 and sector count 200, and the source holds the 300 sectors.
\<close>

definition harddisk_payload :: "byte list" where
  "harddisk_payload =
     replicate 454 0 @ [100, 0, 0, 0, 200, 0, 0, 0] @ replicate 153138 0"

definition harddisk_image :: "byte list" where
  "harddisk_image = standard_image 4 0 19 harddisk_payload"

text \<open>Hard-disk emulation with an empty partition table and a catalog count of 0.\<close>

definition empty_harddisk_image :: "byte list" where
  "empty_harddisk_image = standard_image 4 0 19 (replicate 512 0)"

text \<open>The three floppy types, each with a catalog sector count of 7.\<close>

definition floppy_1200_image :: "byte list" where
  "floppy_1200_image = standard_image 1 7 19 (replicate 1228800 0x11)"

definition floppy_1440_image :: "byte list" where
  "floppy_1440_image = standard_image 2 7 19 (replicate 1474560 0x22)"

definition floppy_2880_image :: "byte list" where
  "floppy_2880_image = standard_image 3 7 19 (replicate 2949120 0x33)"

text \<open>Media type 9, which the module does not know, with a catalog count of 3.\<close>

definition unknown_media_image :: "byte list" where
  "unknown_media_image = standard_image 9 3 19 (replicate 1536 0x44)"

section \<open>Auxiliary facts\<close>

subsection \<open>Characters, digits and the round trip through \<open>str\<close> and \<open>int\<close>\<close>

lemma unat_of_char_byte: "unat (of_char c :: byte) = of_char c"
proof -
  have "unat (of_nat (of_char c :: nat) :: byte) = of_char c mod 256"
    by (simp add: unat_of_nat)
  then show ?thesis by (simp add: of_nat_of_char)
qed

lemma is_digit_dec: "(n::nat) < 10 \<Longrightarrow> is_digit (char_of (48 + n))"
  by (simp add: is_digit_def)

lemma dec_nat_digits: "list_all is_digit (dec_nat n)"
proof (induction n rule: dec_nat.induct)
  case (1 n)
  show ?case
  proof (cases "n < 10")
    case True
    then show ?thesis by (simp add: dec_nat.simps [of n] is_digit_dec)
  next
    case False
    with 1 show ?thesis by (simp add: dec_nat.simps [of n] is_digit_dec)
  qed
qed

lemma dec_nat_nonempty: "dec_nat n \<noteq> []"
  by (simp add: dec_nat.simps [of n])

lemma digits_val_snoc:
  "digits_val (ds @ [c]) = 10 * digits_val ds + ((of_char c :: nat) - 48)"
  by (simp add: digits_val_def)

lemma digits_val_dec_nat: "digits_val (dec_nat n) = n"
proof (induction n rule: dec_nat.induct)
  case (1 n)
  show ?case
  proof (cases "n < 10")
    case True
    then show ?thesis by (simp add: dec_nat.simps [of n] digits_val_def)
  next
    case False
    with 1 have "digits_val (dec_nat (n div 10)) = n div 10" by simp
    with False show ?thesis
      by (simp add: dec_nat.simps [of n] digits_val_snoc)
  qed
qed

lemma is_digit_not_space: "is_digit c \<Longrightarrow> \<not> py_isspace c"
  by (auto simp: is_digit_def py_isspace_def Let_def)

lemma is_digit_not_sign:
  "is_digit c \<Longrightarrow> c \<noteq> CHR ''-'' \<and> c \<noteq> CHR ''+'' \<and> c \<noteq> CHR ''_''"
  by (auto simp: is_digit_def)

lemma int_digits_all: "list_all is_digit s \<Longrightarrow> s \<noteq> [] \<Longrightarrow> int_digits s = Some s"
  by (induction s rule: int_digits.induct) (auto simp: is_digit_not_sign)

lemma strip_id:
  assumes "s \<noteq> []" "\<not> py_isspace (hd s)" "\<not> py_isspace (last s)"
  shows "strip s = s"
proof -
  from assms have "dropWhile py_isspace s = s" by (cases s) simp_all
  moreover from assms have "dropWhile py_isspace (rev s) = rev s"
    by (cases "rev s") (simp_all add: last_rev [symmetric] hd_rev)
  ultimately show ?thesis by (simp add: strip_def)
qed

lemma strip_digits: "list_all is_digit s \<Longrightarrow> s \<noteq> [] \<Longrightarrow> strip s = s"
  by (rule strip_id) (auto simp: list_all_iff is_digit_not_space)

lemma py_int_digits:
  assumes "list_all is_digit s" "s \<noteq> []"
  shows "py_int s = Inr (int (digits_val s))"
proof -
  from assms have "is_digit (hd s)" by (cases s) simp_all
  then have "hd s \<noteq> CHR ''-''" "hd s \<noteq> CHR ''+''" by (simp_all add: is_digit_not_sign)
  with assms show ?thesis
    by (cases s) (simp_all add: py_int_def strip_digits int_digits_all del: int_digits.simps)
qed

text \<open>\<open>int(str(n)) = n\<close> for the unsigned integers that \<open>extract\<close> reads back.\<close>

lemma py_int_str_nat: "py_int (py_str (PInt (int n))) = Inr (int n)"
  by (simp add: py_str_def py_int_digits dec_nat_digits dec_nat_nonempty digits_val_dec_nat)

lemma py_str_PStr: "py_str (PStr s) = s"
  by (simp add: py_str_def)

subsection \<open>Slices and sector reads\<close>

lemma slice_slice: "a + j \<le> b \<Longrightarrow> slice i j (slice a b xs) = slice (a + i) (a + j) xs"
  by (simp add: slice_def drop_take min_def add.commute)

lemma length_slice: "length (slice i j xs) = min (j - i) (length xs - i)"
  by (simp add: slice_def)

lemma get_sector_eq:
  "get_sector (int n) k f =
     (if length (drop (n * 2048) (data f)) < 512 * k then Inl TruncatedImageError
      else Inr (take (512 * k) (drop (n * 2048) (data f)), f\<lparr>pos := n * 2048 + 512 * k\<rparr>))"
  by (auto simp: get_sector_def stream_seek_def stream_read_def SECTOR_SIZE_def
      V_SECTOR_SIZE_def Let_def nat_mult_distrib min_def)

lemma and_then_simps [simp]:
  "and_then (Inl e) k = Inl e"
  "and_then (Inr x) k = k x"
  by (simp_all add: and_then_def)

lemma and_then_weak_cong: "m = m' \<Longrightarrow> and_then m k = and_then m' k"
  by simp

lemma get_sector_17:
  "get_sector 17 (Suc 0) f =
     (if length (boot_record (data f)) \<noteq> 512 then Inl TruncatedImageError
      else Inr (boot_record (data f), f\<lparr>pos := 35328\<rparr>))"
  using get_sector_eq [of 17 1 f] by (simp add: boot_record_def min_def)

lemma get_sector_1:
  "get_sector (int n) (Suc 0) f =
     (if length (take 512 (drop (n * 2048) (data f))) \<noteq> 512 then Inl TruncatedImageError
      else Inr (take 512 (drop (n * 2048) (data f)), f\<lparr>pos := n * 2048 + 512\<rparr>))"
  using get_sector_eq [of n 1 f] by (simp add: min_def)

lemma get_sector_final:
  "and_then (get_sector (int n) k f) (\<lambda>(image, f'). Inr image) = read_sectors n k (data f)"
  by (simp add: get_sector_eq read_sectors_def Let_def min_def mult.commute)

lemma unpack_boot_record:
  "length (boot_record d) = 512 \<Longrightarrow>
   unpack_B5sB32s32sL (slice 0 75 (boot_record d)) =
     Inr (le_uint (slice 0 1 (boot_record d)), boot_system_identifier d,
          le_uint (slice 6 7 (boot_record d)), boot_system_specifier d,
          slice 39 71 (boot_record d), boot_catalog_sector d)"
  by (simp add: unpack_B5sB32s32sL_def length_slice slice_slice boot_system_identifier_def
      boot_system_specifier_def boot_catalog_sector_def)

lemma unpack_validation_entry:
  "length (catalog d) = 512 \<Longrightarrow>
   unpack_BBH24sHBB (slice 0 32 (catalog d)) =
     Inr (header_id d, platform_id d, le_uint (slice 2 4 (catalog d)), manufacturer_id d,
          le_uint (slice 28 30 (catalog d)), key_byte_1 d, key_byte_2 d)"
  by (simp add: unpack_BBH24sHBB_def length_slice slice_slice header_id_def platform_id_def
      manufacturer_id_def key_byte_1_def key_byte_2_def numeral_2_eq_2)

lemma unpack_initial_entry:
  "length (catalog d) = 512 \<Longrightarrow>
   unpack_BBHBBHLB (slice 32 45 (catalog d)) =
     Inr (boot_indicator d, media_type d, le_uint (slice 34 36 (catalog d)),
          le_uint (slice 36 37 (catalog d)), le_uint (slice 37 38 (catalog d)),
          sector_count d, load_rba d, le_uint (slice 44 45 (catalog d)))"
  by (simp add: unpack_BBHBBHLB_def length_slice slice_slice boot_indicator_def media_type_def
      sector_count_def load_rba_def)

lemma unpack_partition_entry:
  "length (partition_sector d) = 512 \<Longrightarrow>
   unpack_8sLL (slice 446 462 (partition_sector d)) =
     Inr (slice 446 454 (partition_sector d), first_sector_lba d, sector_count_lba d)"
  by (simp add: unpack_8sLL_def length_slice slice_slice first_sector_lba_def
      sector_count_lba_def)

subsection \<open>Handlers that keep their attributes\<close>

lemma keeps_get_set:
  "keeps_attributes s \<Longrightarrow>
   sink_get s key (sink_set s key' v h) = (if key = key' then Inr v else sink_get s key h)"
  by (simp add: keeps_attributes_def)

lemma keeps_DetailHandler: "keeps_attributes DetailHandler"
  by (simp add: keeps_attributes_def DetailHandler_def DetailHandler_set_def
      DetailHandler_get_def Let_def split: option.splits)

text \<open>
  With such a handler, \<open>extract\<close> is the descriptor walk over the bytes of the source:
  every value it reads back is the value it stored.
\<close>

lemma extract_keeps:
  assumes k: "keeps_attributes s"
  shows "extract s (Some f) (Some h) = extract_outcome (data f)"
proof -
  define d where "d = data f"
  note gs = keeps_get_set [OF k]
  have gc: "\<And>p. get_sector (int (boot_catalog_sector d)) (Suc 0) (f\<lparr>pos := p\<rparr>) =
     (if length (catalog d) \<noteq> 512 then Inl TruncatedImageError
      else Inr (catalog d, f\<lparr>pos := boot_catalog_sector d * 2048 + 512\<rparr>))"
    by (simp add: get_sector_1 d_def catalog_def)
  have gp: "\<And>p. get_sector (int (load_rba d)) (Suc 0) (f\<lparr>pos := p\<rparr>) =
     (if length (partition_sector d) \<noteq> 512 then Inl TruncatedImageError
      else Inr (partition_sector d, f\<lparr>pos := load_rba d * 2048 + 512\<rparr>))"
    by (simp add: get_sector_1 d_def partition_sector_def)
  have gf: "\<And>n k p. and_then (get_sector (int n) k (f\<lparr>pos := p\<rparr>)) (\<lambda>(image, f'). Inr image)
     = read_sectors n k d"
    by (simp add: get_sector_final d_def)
  note stage = extract_def extract_outcome_def get_sector_17 d_def [symmetric] Let_def
    decode_ascii_def gs py_int_str_nat py_str_PStr gc
  show ?thesis
  proof (cases "length (boot_record d) = 512")
    case False
    then show ?thesis
      by (simp add: stage cong: and_then_weak_cong split del: if_split)
  next
    case lb: True
    note ub = unpack_boot_record [OF lb]
    show ?thesis
    proof (cases "is_ascii (boot_system_identifier d)")
      case False
      with lb show ?thesis
        by (simp add: stage ub cong: and_then_weak_cong split del: if_split)
    next
      case a1: True
      show ?thesis
      proof (cases "is_ascii (boot_system_specifier d)")
        case False
        with lb a1 show ?thesis
          by (simp add: stage ub cong: and_then_weak_cong split del: if_split)
      next
        case a2: True
        show ?thesis
        proof (cases "boot_record_ok d")
          case False
          show ?thesis
          proof (cases "ascii_text (boot_system_identifier d) = ''CD001''")
            case False
            with lb a1 a2 show ?thesis
              by (simp add: stage ub boot_record_ok_def
                  cong: and_then_weak_cong split del: if_split)
          next
            case True
            with \<open>\<not> boot_record_ok d\<close> lb a1 a2 show ?thesis
              by (simp add: stage ub boot_record_ok_def compared_specifier_def
                  cong: and_then_weak_cong split del: if_split)
          qed
        next
          case ok: True
          then have ok': "ascii_text (boot_system_identifier d) = ''CD001''"
            "strip (filter upper_or_space (strip (ascii_text (boot_system_specifier d)))) =
              ''EL TORITO SPECIFICATION''"
            by (simp_all add: boot_record_ok_def compared_specifier_def)
          show ?thesis
          proof (cases "length (catalog d) = 512")
            case False
            with lb a1 a2 ok ok' show ?thesis
              by (simp add: stage ub cong: and_then_weak_cong split del: if_split)
          next
            case lc: True
            note uv = unpack_validation_entry [OF lc]
            note ui = unpack_initial_entry [OF lc]
            note pre = lb a1 a2 ok ok' lc
            show ?thesis
            proof (cases "is_ascii (manufacturer_id d)")
              case False
              with pre show ?thesis
                by (simp add: stage ub uv cong: and_then_weak_cong split del: if_split)
            next
              case a3: True
              show ?thesis
              proof (cases "validation_ok d")
                case False
                from pre a3 False [unfolded validation_ok_def] False show ?thesis
                  by (simp add: stage ub uv cong: and_then_weak_cong split del: if_split)
              next
                case v: True
                then have v': "header_id d = 1" "key_byte_1 d = 85" "key_byte_2 d = 170"
                  by (simp_all add: validation_ok_def)
                show ?thesis
                proof (cases "boot_indicator d = 136")
                  case False
                  with pre a3 v v' show ?thesis
                    by (simp add: stage ub uv ui cong: and_then_weak_cong split del: if_split)
                next
                  case b: True
                  note pre2 = pre a3 v v' b
                  note fin = stage ub uv ui gf gp V_SECTOR_SIZE_def
                    candidate_sector_count_def resolved_sector_count_def
                  consider "media_type d = 0" | "media_type d = 1" | "media_type d = 2"
                    | "media_type d = 3" | "media_type d = 4" | "4 < media_type d"
                    by linarith
                  then show ?thesis
                  proof cases
                    case 1
                    with pre2 show ?thesis
                      by (simp add: fin cong: and_then_weak_cong split del: if_split)
                  next
                    case 2
                    with pre2 show ?thesis
                      by (simp add: fin cong: and_then_weak_cong split del: if_split)
                  next
                    case 3
                    with pre2 show ?thesis
                      by (simp add: fin cong: and_then_weak_cong split del: if_split)
                  next
                    case 4
                    with pre2 show ?thesis
                      by (simp add: fin cong: and_then_weak_cong split del: if_split)
                  next
                    case 5
                    show ?thesis
                    proof (cases "length (partition_sector d) = 512")
                      case False
                      with pre2 5 show ?thesis
                        by (simp add: fin cong: and_then_weak_cong split del: if_split)
                    next
                      case True
                      with pre2 5 show ?thesis
                        by (simp add: fin unpack_partition_entry
                            cong: and_then_weak_cong split del: if_split)
                          (simp add: candidate_sector_count_def)
                    qed
                  next
                    case 6
                    with pre2 show ?thesis
                      by (simp add: fin cong: and_then_weak_cong split del: if_split)
                  qed
                qed
              qed
            qed
          qed
        qed
      qed
    qed
  qed
qed

subsection \<open>The fields of the example images\<close>

lemma length_boot_sector:
  "length ident = 5 \<Longrightarrow> length spec = 32 \<Longrightarrow> length (boot_sector ident spec) = 512"
  by (simp add: boot_sector_def)

lemma length_catalog_sector:
  "length m = 24 \<Longrightarrow> length (catalog_sector hdr pl m k1 k2 bt md cnt st) = 512"
  by (simp add: catalog_sector_def)

lemma boot_record_iso_image:
  "length b = 512 \<Longrightarrow> boot_record (iso_image b c gap p) = b"
  by (simp add: boot_record_def iso_image_def)

lemma boot_sector_fields:
  assumes "length ident = 5" "length spec = 32"
  shows "slice 1 6 (boot_sector ident spec) = ident"
    and "slice 7 39 (boot_sector ident spec) = spec"
    and "le_uint (slice 71 75 (boot_sector ident spec)) = 18"
  using assms by (simp_all add: slice_def boot_sector_def)

lemma catalog_sector_fields:
  assumes "length m = 24"
  shows "le_uint (slice 0 1 (catalog_sector hdr pl m k1 k2 bt md cnt st)) = unat hdr"
    and "le_uint (slice 1 2 (catalog_sector hdr pl m k1 k2 bt md cnt st)) = unat pl"
    and "slice 4 28 (catalog_sector hdr pl m k1 k2 bt md cnt st) = m"
    and "le_uint (slice 30 31 (catalog_sector hdr pl m k1 k2 bt md cnt st)) = unat k1"
    and "le_uint (slice 31 32 (catalog_sector hdr pl m k1 k2 bt md cnt st)) = unat k2"
    and "le_uint (slice 32 33 (catalog_sector hdr pl m k1 k2 bt md cnt st)) = unat bt"
    and "le_uint (slice 33 34 (catalog_sector hdr pl m k1 k2 bt md cnt st)) = unat md"
    and "le_uint (slice 38 40 (catalog_sector hdr pl m k1 k2 bt md cnt st)) = unat cnt"
    and "le_uint (slice 40 44 (catalog_sector hdr pl m k1 k2 bt md cnt st)) = unat st"
  using assms by (simp_all add: slice_def catalog_sector_def)

lemma length_iso_image:
  "length (iso_image b c gap p) = 36352 + length b + length c + gap + length p"
  by (simp add: iso_image_def)

lemma drop_iso_image_payload:
  "length b = 512 \<Longrightarrow> length c = 512 \<Longrightarrow> drop (37376 + gap) (iso_image b c gap p) = p"
  by (simp add: iso_image_def)

lemma catalog_iso_image:
  "length b = 512 \<Longrightarrow> length c = 512 \<Longrightarrow> boot_catalog_sector (iso_image b c gap p) = 18 \<Longrightarrow>
   catalog (iso_image b c gap p) = c"
  by (simp add: catalog_def) (simp add: iso_image_def)

lemma image_boot_fields:
  assumes "length ident = 5" "length spec = 32"
  shows "boot_record (iso_image (boot_sector ident spec) c gap p) = boot_sector ident spec"
    and "boot_system_identifier (iso_image (boot_sector ident spec) c gap p) = ident"
    and "boot_system_specifier (iso_image (boot_sector ident spec) c gap p) = spec"
    and "boot_catalog_sector (iso_image (boot_sector ident spec) c gap p) = 18"
  using assms
  by (simp_all add: boot_system_identifier_def boot_system_specifier_def
      boot_catalog_sector_def boot_record_iso_image length_boot_sector boot_sector_fields
      del: One_nat_def)

lemma image_catalog:
  assumes "length ident = 5" "length spec = 32" "length m = 24"
  shows "catalog (iso_image (boot_sector ident spec)
           (catalog_sector hdr pl m k1 k2 bt md cnt st) gap p) =
         catalog_sector hdr pl m k1 k2 bt md cnt st"
  using assms
  by (simp add: catalog_iso_image image_boot_fields length_boot_sector length_catalog_sector)

lemma image_catalog_fields:
  assumes "length ident = 5" "length spec = 32" "length m = 24"
  shows "header_id
           (iso_image (boot_sector ident spec) (catalog_sector hdr pl m k1 k2 bt md cnt st) gap p) = unat hdr"
    and "platform_id
           (iso_image (boot_sector ident spec) (catalog_sector hdr pl m k1 k2 bt md cnt st) gap p) = unat pl"
    and "manufacturer_id
           (iso_image (boot_sector ident spec) (catalog_sector hdr pl m k1 k2 bt md cnt st) gap p) = m"
    and "key_byte_1
           (iso_image (boot_sector ident spec) (catalog_sector hdr pl m k1 k2 bt md cnt st) gap p) = unat k1"
    and "key_byte_2
           (iso_image (boot_sector ident spec) (catalog_sector hdr pl m k1 k2 bt md cnt st) gap p) = unat k2"
    and "boot_indicator
           (iso_image (boot_sector ident spec) (catalog_sector hdr pl m k1 k2 bt md cnt st) gap p) = unat bt"
    and "media_type
           (iso_image (boot_sector ident spec) (catalog_sector hdr pl m k1 k2 bt md cnt st) gap p) = unat md"
    and "sector_count
           (iso_image (boot_sector ident spec) (catalog_sector hdr pl m k1 k2 bt md cnt st) gap p) = unat cnt"
    and "load_rba
           (iso_image (boot_sector ident spec) (catalog_sector hdr pl m k1 k2 bt md cnt st) gap p) = unat st"
  using assms
  by (simp_all add: header_id_def platform_id_def manufacturer_id_def key_byte_1_def
      key_byte_2_def boot_indicator_def media_type_def sector_count_def load_rba_def
      image_catalog catalog_sector_fields del: One_nat_def)

lemma image_payload:
  assumes "length ident = 5" "length spec = 32" "length m = 24"
    and "unat st * 2048 = 37376 + gap"
  shows "partition_sector
           (iso_image (boot_sector ident spec) (catalog_sector hdr pl m k1 k2 bt md cnt st) gap p) = take 512 p"
    and "read_sectors (unat st) n
           (iso_image (boot_sector ident spec) (catalog_sector hdr pl m k1 k2 bt md cnt st) gap p) =
           (if length p < n * 512 then Inl TruncatedImageError else Inr (take (n * 512) p))"
  using assms
  by (simp_all add: partition_sector_def read_sectors_def image_catalog_fields
      drop_iso_image_payload length_boot_sector length_catalog_sector Let_def)

lemma is_ascii_replicate: "is_ascii (replicate n 0)"
  by (simp add: is_ascii_def list_all_iff)

lemma replicate_9: "replicate 9 x = [x, x, x, x, x, x, x, x, x]"
  by (simp add: numeral_eq_Suc)

lemma replicate_7: "replicate 7 x = [x, x, x, x, x, x, x]"
  by (simp add: numeral_eq_Suc)

lemma cd001_text: "length cd001 = 5" "is_ascii cd001" "ascii_text cd001 = ''CD001''"
  by (simp_all add: cd001_def is_ascii_def ascii_text_def char_of_eq_iff)

lemma el_torito_specifier_text:
  "length el_torito_specifier = 32" "is_ascii el_torito_specifier"
  by (simp_all add: el_torito_specifier_def is_ascii_def list_all_iff)

lemma el_torito_specifier_compared:
  "strip (filter upper_or_space (strip (ascii_text el_torito_specifier))) =
     ''EL TORITO SPECIFICATION''"
  by (simp add: el_torito_specifier_def replicate_9 ascii_text_def strip_def py_isspace_def
      upper_or_space_def char_of_eq_iff)

lemma no_manufacturer_text: "length no_manufacturer = 24" "is_ascii no_manufacturer"
  by (simp_all add: no_manufacturer_def is_ascii_replicate)

lemmas fixture_lengths = cd001_text(1) el_torito_specifier_text(1) no_manufacturer_text(1)

lemmas good_boot_fields = image_boot_fields [OF fixture_lengths(1,2)]

lemmas standard_fields =
  good_boot_fields image_catalog [OF fixture_lengths] image_catalog_fields [OF fixture_lengths]

lemma good_boot_record_ok:
  "boot_record_ok (iso_image (boot_sector cd001 el_torito_specifier) c gap p)"
  by (simp add: boot_record_ok_def compared_specifier_def good_boot_fields cd001_text
      el_torito_specifier_compared)

lemma good_image_accepted:
  "descriptors_accepted
     (iso_image (boot_sector cd001 el_torito_specifier)
        (catalog_sector 1 pl no_manufacturer 0x55 0xAA 0x88 md cnt st) gap p)"
  by (simp add: descriptors_accepted_def standard_fields
      length_boot_sector length_catalog_sector fixture_lengths cd001_text
      el_torito_specifier_text no_manufacturer_text good_boot_record_ok validation_ok_def)

lemma standard_image_accepted: "descriptors_accepted (standard_image md cnt st p)"
  by (simp add: standard_image_def good_image_accepted)

lemma length_standard_image:
  "19 \<le> unat st \<Longrightarrow> length (standard_image md cnt st p) = unat st * 2048 + length p"
  by (simp add: standard_image_def length_iso_image length_boot_sector length_catalog_sector
      fixture_lengths)

lemma resolved_no_emulation:
  "media_type d = 0 \<Longrightarrow> resolved_sector_count d = sector_count d"
  by (simp add: resolved_sector_count_def candidate_sector_count_def)

lemma standard_image_fields:
  "media_type (standard_image md cnt st p) = unat md"
  "sector_count (standard_image md cnt st p) = unat cnt"
  "load_rba (standard_image md cnt st p) = unat st"
  by (simp_all add: standard_image_def standard_fields)

lemma standard_image_payload:
  assumes "19 \<le> unat st"
  shows "partition_sector (standard_image md cnt st p) = take 512 p"
    and "read_sectors (unat st) n (standard_image md cnt st p) =
           (if length p < n * 512 then Inl TruncatedImageError else Inr (take (n * 512) p))"
  using assms image_payload [OF fixture_lengths, of st "unat st * 2048 - 37376"]
  by (simp_all add: standard_image_def)

lemma extract_outcome_accepted:
  "descriptors_accepted d \<Longrightarrow>
   extract_outcome d =
     (if media_type d = 4 \<and> length (partition_sector d) \<noteq> 512 then Inl TruncatedImageError
      else read_sectors (load_rba d) (resolved_sector_count d) d)"
  by (simp add: descriptors_accepted_def extract_outcome_def)

lemma extract_DetailHandler:
  "extract DetailHandler (Some f) (Some h) = extract_outcome (data f)"
  by (rule extract_keeps [OF keeps_DetailHandler])

subsection \<open>Successful extractions\<close>

lemma read_sectors_Inr:
  "read_sectors n k d = Inr buf \<Longrightarrow> buf = take (k * 512) (drop (n * 2048) d) \<and> length buf = k * 512"
  by (auto simp: read_sectors_def Let_def min_def split: if_splits)

lemma extract_outcome_Inr:
  "extract_outcome d = Inr buf \<Longrightarrow>
   descriptors_accepted d \<and> read_sectors (load_rba d) (resolved_sector_count d) d = Inr buf"
  by (simp add: extract_outcome_def descriptors_accepted_def split: if_splits)

subsection \<open>Other handlers, absent arguments, and the errors of \<open>extract\<close>\<close>

lemma keeps_PairListHandler: "keeps_attributes PairListHandler"
  by (simp add: keeps_attributes_def PairListHandler_def)

lemma extract_None:
  "extract s None h = Inl InvalidArgumentError"
  "extract s i None = Inl InvalidArgumentError"
  by (simp_all add: extract_def)

lemma extract_dropping:
  "extract DroppingHandler (Some f) (Some u) =
     (if length (boot_record (data f)) \<noteq> 512 then Inl TruncatedImageError
      else if \<not> is_ascii (boot_system_identifier (data f)) then Inl UnicodeDecodeError
      else if \<not> is_ascii (boot_system_specifier (data f)) then Inl UnicodeDecodeError
      else Inl AttributeError)"
proof -
  define d where "d = data f"
  note stage = extract_def get_sector_17 d_def [symmetric] Let_def decode_ascii_def
    DroppingHandler_def
  show ?thesis
  proof (cases "length (boot_record d) = 512")
    case False
    then show ?thesis
      by (simp add: stage cong: and_then_weak_cong split del: if_split)
  next
    case lb: True
    note ub = unpack_boot_record [OF lb]
    show ?thesis
    proof (cases "is_ascii (boot_system_identifier d)")
      case False
      with lb show ?thesis
        by (simp add: stage ub cong: and_then_weak_cong split del: if_split)
    next
      case a1: True
      show ?thesis
      proof (cases "is_ascii (boot_system_specifier d)")
        case False
        with lb a1 show ?thesis
          by (simp add: stage ub cong: and_then_weak_cong split del: if_split)
      next
        case True
        with lb a1 show ?thesis
          by (simp add: stage ub cong: and_then_weak_cong split del: if_split)
      qed
    qed
  qed
qed

lemma extract_error_kinds:
  assumes "extract DetailHandler input_stream h = Inl e"
  shows "e = UnicodeDecodeError \<or> e \<in> set taxonomy"
proof (cases "input_stream = None \<or> h = None")
  case True
  with assms show ?thesis by (auto simp: extract_None taxonomy_def)
next
  case False
  then obtain f a where "input_stream = Some f" "h = Some a" by auto
  with assms have "extract_outcome (data f) = Inl e" by (simp add: extract_DetailHandler)
  then show ?thesis
    by (auto simp: extract_outcome_def read_sectors_def taxonomy_def Let_def split: if_splits)
qed

subsection \<open>The validation entry and the boot record of the example images\<close>

lemma image_accepted:
  assumes "length ident = 5" "length spec = 32" "is_ascii ident" "is_ascii spec"
    and "ascii_text ident = ''CD001''"
    and "strip (filter upper_or_space (strip (ascii_text spec))) = ''EL TORITO SPECIFICATION''"
  shows "descriptors_accepted
     (iso_image (boot_sector ident spec)
        (catalog_sector 1 pl no_manufacturer 0x55 0xAA 0x88 md cnt st) gap p)"
  using assms
  by (simp add: descriptors_accepted_def image_boot_fields image_catalog image_catalog_fields
      length_boot_sector length_catalog_sector no_manufacturer_text boot_record_ok_def
      compared_specifier_def validation_ok_def)

lemma validation_entry_checked:
  assumes "length (boot_record (data f)) = 512" "is_ascii (boot_system_identifier (data f))"
    "is_ascii (boot_system_specifier (data f))" "boot_record_ok (data f)"
    "length (catalog (data f)) = 512" "is_ascii (manufacturer_id (data f))"
  shows "extract DetailHandler (Some f) (Some h) = Inl InvalidValidationEntryError \<longleftrightarrow>
         header_id (data f) \<noteq> 1 \<or> key_byte_1 (data f) \<noteq> 0x55 \<or> key_byte_2 (data f) \<noteq> 0xAA"
  using assms
  by (auto simp: extract_DetailHandler extract_outcome_def validation_ok_def read_sectors_def
      Let_def)

lemma swapped_key_rejected:
  "extract DetailHandler (source swapped_key_image) (Some h) = Inl InvalidValidationEntryError"
  by (simp add: source_def extract_DetailHandler extract_outcome_def swapped_key_image_def
      standard_fields length_boot_sector length_catalog_sector fixture_lengths cd001_text
      el_torito_specifier_text no_manufacturer_text good_boot_record_ok validation_ok_def)

lemma unknown_platform_accepted:
  "extract DetailHandler
     (source (iso_image (boot_sector cd001 el_torito_specifier)
        (catalog_sector 1 7 no_manufacturer 0x55 0xAA 0x88 0 40 25) 13824
        (replicate 20480 0xAB)))
     (Some h) = Inr (replicate 20480 0xAB)"
  by (simp add: source_def extract_DetailHandler extract_outcome_accepted good_image_accepted
      standard_fields resolved_no_emulation
      image_payload [OF fixture_lengths, where st = 25 and gap = 13824, simplified])

lemma padded_specifier_text:
  "length padded_specifier = 32" "is_ascii padded_specifier"
  by (simp_all add: padded_specifier_def is_ascii_def list_all_iff)

lemma padded_specifier_filtered:
  "filter upper_or_space (ascii_text padded_specifier) = '' EL TORITO SPECIFICATION''"
  by (simp add: padded_specifier_def replicate_7 ascii_text_def upper_or_space_def
      char_of_eq_iff)

lemma padded_specifier_stripped_filtered:
  "filter upper_or_space (strip (ascii_text padded_specifier)) = '' EL TORITO SPECIFICATION''"
  by (simp add: padded_specifier_def replicate_7 ascii_text_def strip_def py_isspace_def
      upper_or_space_def char_of_eq_iff)

lemma padded_specifier_compared:
  "strip (filter upper_or_space (strip (ascii_text padded_specifier))) =
     ''EL TORITO SPECIFICATION''"
  by (simp add: padded_specifier_def replicate_7 ascii_text_def strip_def py_isspace_def
      upper_or_space_def char_of_eq_iff)

lemma cd002_text: "length cd002 = 5" "is_ascii cd002" "ascii_text cd002 = ''CD002''"
  by (simp_all add: cd002_def is_ascii_def ascii_text_def char_of_eq_iff)

subsection \<open>Resolved sector counts, and the media of the example images\<close>

lemma resolved_harddisk:
  "media_type d = 4 \<Longrightarrow>
   resolved_sector_count d =
     (if first_sector_lba d + sector_count_lba d = 0 then sector_count d
      else first_sector_lba d + sector_count_lba d)"
  by (simp add: resolved_sector_count_def candidate_sector_count_def)

lemma resolved_floppy:
  "media_type d = 1 \<Longrightarrow> resolved_sector_count d = 2400"
  "media_type d = 2 \<Longrightarrow> resolved_sector_count d = 2880"
  "media_type d = 3 \<Longrightarrow> resolved_sector_count d = 5760"
  by (simp_all add: resolved_sector_count_def candidate_sector_count_def)

lemma resolved_unknown:
  "4 < media_type d \<Longrightarrow> resolved_sector_count d = sector_count d"
  by (simp add: resolved_sector_count_def candidate_sector_count_def)

lemma le_uint_zeros: "le_uint (replicate n 0) = 0"
  by (induction n) simp_all

lemma empty_harddisk_fields:
  "media_type empty_harddisk_image = 4" "sector_count empty_harddisk_image = 0"
  "load_rba empty_harddisk_image = 19"
  "length (partition_sector empty_harddisk_image) = 512"
  "first_sector_lba empty_harddisk_image = 0" "sector_count_lba empty_harddisk_image = 0"
  by (simp_all add: empty_harddisk_image_def standard_image_fields first_sector_lba_def
      sector_count_lba_def standard_image_payload [where st = 19, simplified] slice_def
      le_uint_zeros)

lemma read_sectors_none: "read_sectors n 0 d = Inr []"
  by (simp add: read_sectors_def)

lemma harddisk_image_fields:
  "media_type harddisk_image = 4"
  "length (partition_sector harddisk_image) = 512"
  "first_sector_lba harddisk_image = 100"
  "sector_count_lba harddisk_image = 200"
  "load_rba harddisk_image = 19"
  by (simp_all add: harddisk_image_def standard_image_fields first_sector_lba_def
      sector_count_lba_def standard_image_payload [where st = 19, simplified]
      harddisk_payload_def slice_def)

lemma read_harddisk_image: "read_sectors 19 300 harddisk_image = Inr harddisk_payload"
  using standard_image_payload(2) [where st = 19 and md = 4 and cnt = 0
      and p = harddisk_payload and n = 300]
  by (simp add: harddisk_image_def) (simp add: harddisk_payload_def)

lemma floppy_image_fields:
  "media_type floppy_1200_image = 1" "sector_count floppy_1200_image = 7"
  "load_rba floppy_1200_image = 19"
  "media_type floppy_1440_image = 2" "sector_count floppy_1440_image = 7"
  "load_rba floppy_1440_image = 19"
  "media_type floppy_2880_image = 3" "sector_count floppy_2880_image = 7"
  "load_rba floppy_2880_image = 19"
  by (simp_all add: floppy_1200_image_def floppy_1440_image_def floppy_2880_image_def
      standard_image_fields)

lemma floppy_images_accepted:
  "descriptors_accepted floppy_1200_image" "descriptors_accepted floppy_1440_image"
  "descriptors_accepted floppy_2880_image"
  by (simp_all add: floppy_1200_image_def floppy_1440_image_def floppy_2880_image_def
      standard_image_accepted)

lemma read_floppy_images:
  "read_sectors 19 2400 floppy_1200_image = Inr (replicate 1228800 0x11)"
  "read_sectors 19 2880 floppy_1440_image = Inr (replicate 1474560 0x22)"
  "read_sectors 19 5760 floppy_2880_image = Inr (replicate 2949120 0x33)"
  by (simp_all add: floppy_1200_image_def floppy_1440_image_def floppy_2880_image_def
      standard_image_payload [where st = 19, simplified])

lemma unknown_media_fields:
  "media_type unknown_media_image = 9" "sector_count unknown_media_image = 3"
  "load_rba unknown_media_image = 19" "length unknown_media_image = 40448"
  "drop 38912 unknown_media_image = replicate 1536 0x44"
  by (simp_all add: unknown_media_image_def standard_image_fields length_standard_image)
    (simp add: standard_image_def drop_iso_image_payload [where gap = 1536, simplified]
      length_boot_sector length_catalog_sector fixture_lengths)

lemma read_unknown_media:
  "read_sectors 19 3 unknown_media_image = Inr (replicate 1536 0x44)"
  by (simp add: unknown_media_image_def standard_image_payload [where st = 19, simplified])

lemma extract_no_emulation_image:
  "extract DetailHandler (source no_emulation_image) (Some h) = Inr (replicate 20480 0xAB)"
  by (simp add: source_def extract_DetailHandler no_emulation_image_def extract_outcome_accepted
      standard_image_accepted standard_image_fields resolved_no_emulation
      standard_image_payload [where st = 25, simplified])

section \<open>The claims\<close>

subsection \<open>C1: the extracted image\<close>

text \<open>
  C1. Whenever \<open>extract\<close> succeeds, the returned buffer has exactly
  \<open>resolved_sector_count * 512\<close> bytes, and they are the bytes of the source from byte
  \<open>load_rba * 2048\<close> on. For no-emulation media with a catalog sector count of 40 and
  \<open>load_rba = 25\<close> these are the 20480 bytes from byte 51200 on.
\<close>

theorem extract_returns_image:
  assumes "extract DetailHandler (Some f) (Some h) = Inr buf"
  shows "length buf = resolved_sector_count (data f) * 512 \<and>
         buf = take (resolved_sector_count (data f) * 512)
                 (drop (load_rba (data f) * 2048) (data f)) \<and>
         (media_type (data f) = 0 \<and> sector_count (data f) = 40 \<and> load_rba (data f) = 25 \<longrightarrow>
            length buf = 20480 \<and> buf = take 20480 (drop 51200 (data f)))"
proof -
  from assms have "read_sectors (load_rba (data f)) (resolved_sector_count (data f)) (data f) = Inr buf"
    by (simp add: extract_DetailHandler extract_outcome_Inr)
  note rs = read_sectors_Inr [OF this]
  note * = rs [THEN conjunct1] rs [THEN conjunct2]
  show ?thesis
  proof (intro conjI impI)
    assume "media_type (data f) = 0 \<and> sector_count (data f) = 40 \<and> load_rba (data f) = 25"
    then have r: "resolved_sector_count (data f) = 40" "load_rba (data f) = 25"
      by (simp_all add: resolved_no_emulation)
    from *(2) show "length buf = 20480" by (simp add: r)
    from *(1) show "buf = take 20480 (drop 51200 (data f))" by (simp add: r)
  qed (use * in simp_all)
qed

theorem extract_returns_image_witness:
  "extract DetailHandler (source no_emulation_image) (Some (new_handler None)) =
     Inr (replicate 20480 0xAB) \<and>
   media_type no_emulation_image = 0 \<and> sector_count no_emulation_image = 40 \<and>
   load_rba no_emulation_image = 25 \<and>
   length (replicate 20480 (0xAB :: byte)) = 20480 \<and>
   replicate 20480 0xAB = take 20480 (drop 51200 no_emulation_image)"
proof -
  have e: "extract DetailHandler (Some \<lparr>data = no_emulation_image, pos = 0\<rparr>)
      (Some (new_handler None)) = Inr (replicate 20480 0xAB)"
    using extract_no_emulation_image [of "new_handler None"] by (simp add: source_def)
  have f: "media_type no_emulation_image = 0" "sector_count no_emulation_image = 40"
    "load_rba no_emulation_image = 25"
    by (simp_all add: no_emulation_image_def standard_image_fields)
  from extract_returns_image [OF e] f
  have "take 20480 (drop 51200 no_emulation_image) = replicate 20480 0xAB" by simp
  with e f show ?thesis by (simp add: source_def)
qed

subsection \<open>C2: the handler and the result\<close>

text \<open>
  C2, as amended. For any two handlers that keep their attributes (\<open>get\<close> returns the
  value last \<open>set\<close> under the key, as \<open>DetailHandler\<close> does with or without an output
  stream), \<open>extract\<close> returns the same bytes or fails with the same error on every
  source; what a handler prints or how it stores the pairs has no effect.
\<close>

theorem handler_keeping_attributes_is_diagnostic_only:
  assumes "keeps_attributes s1" and "keeps_attributes s2" and "h1 = None \<longleftrightarrow> h2 = None"
  shows "extract s1 input_stream h1 = extract s2 input_stream h2"
proof (cases input_stream)
  case None
  then show ?thesis by (simp add: extract_None)
next
  case (Some f)
  show ?thesis
  proof (cases h1)
    case None
    with assms(3) show ?thesis by (simp add: extract_None)
  next
    case (Some a)
    with assms(3) obtain b where "h2 = Some b" by (cases h2) simp_all
    with Some \<open>input_stream = Some f\<close> assms(1,2) show ?thesis
      by (simp add: extract_keeps)
  qed
qed

theorem handler_keeping_attributes_witness:
  "keeps_attributes DetailHandler \<and> keeps_attributes PairListHandler \<and>
   extract DetailHandler (source no_emulation_image) (Some (new_handler (Some ''''))) =
     Inr (replicate 20480 0xAB) \<and>
   extract PairListHandler (source no_emulation_image) (Some []) = Inr (replicate 20480 0xAB)"
proof -
  have "(Some (new_handler (Some '''')) = None) = (Some ([] :: (string \<times> pyval) list) = None)"
    by simp
  from handler_keeping_attributes_is_diagnostic_only
         [OF keeps_DetailHandler keeps_PairListHandler this, of "source no_emulation_image"]
  show ?thesis
    by (simp add: keeps_DetailHandler keeps_PairListHandler extract_no_emulation_image)
qed

text \<open>
  The claim as stated fails for a handler that drops the pairs: \<open>extract\<close> reads
  \<open>iso\<close>, \<open>spec\<close>, \<open>partition\<close>, \<open>platform\<close> and \<open>media\<close> back from the handler, so on
  a source that \<open>DetailHandler\<close> extracts, the dropping handler ends in
  \<open>AttributeError\<close>.
\<close>

theorem dropping_handler_changes_result:
  "extract DetailHandler (source no_emulation_image) (Some (new_handler None)) =
     Inr (replicate 20480 0xAB) \<and>
   extract DroppingHandler (source no_emulation_image) (Some ()) = Inl AttributeError"
  by (simp add: extract_no_emulation_image)
    (simp add: source_def extract_dropping no_emulation_image_def standard_image_def
      good_boot_fields length_boot_sector fixture_lengths cd001_text el_torito_specifier_text)

subsection \<open>C3: the errors that escape\<close>

text \<open>
  C3 does not hold of the module. On the source below, whose boot record identifier holds
  the byte 0xFF, \<open>extract\<close> ends in \<open>UnicodeDecodeError\<close>, raised by
  \<open>decode("ascii")\<close> before any check; it is none of the five errors.
\<close>

theorem non_ascii_identifier_escapes:
  "extract DetailHandler (source non_ascii_identifier_image) (Some (new_handler None)) =
     Inl UnicodeDecodeError \<and>
   UnicodeDecodeError \<notin> set taxonomy"
proof -
  have l: "length [0x43, 0x44, 0x30, 0x30, 0xFF :: byte] = 5" by simp
  note b = image_boot_fields [OF l el_torito_specifier_text(1)]
  have "\<not> is_ascii [0x43, 0x44, 0x30, 0x30, 0xFF :: byte]" by (simp add: is_ascii_def)
  then show ?thesis
    by (simp add: source_def extract_DetailHandler extract_outcome_def
        non_ascii_identifier_image_def b length_boot_sector el_torito_specifier_text
        taxonomy_def)
qed

theorem non_ascii_identifier_escapes_witness:
  "extract DetailHandler (source non_ascii_identifier_image) (Some (new_handler None)) \<noteq>
     Inl TruncatedImageError \<and>
   extract DetailHandler (source non_ascii_identifier_image) (Some (new_handler None)) \<noteq>
     Inl NotBootableError \<and>
   extract DetailHandler (source non_ascii_identifier_image) (Some (new_handler None)) \<noteq>
     Inl InvalidValidationEntryError \<and>
   extract DetailHandler (source non_ascii_identifier_image) (Some (new_handler None)) \<noteq>
     Inl NotBootableEntryError \<and>
   extract DetailHandler (source non_ascii_identifier_image) (Some (new_handler None)) \<noteq>
     Inl InvalidArgumentError"
  using non_ascii_identifier_escapes by simp

subsection \<open>C4: truncated sources\<close>

text \<open>
  C4, as amended. \<open>_get_sector\<close> raises the truncation error exactly when the source
  yields fewer than \<open>count * 512\<close> bytes at byte \<open>number * 2048\<close>, and otherwise returns
  exactly these \<open>count * 512\<close> bytes. A source that is one byte shorter than
  \<open>load_rba * 2048 + sector_count * 512\<close>, for a resolved sector count above 0, makes
  \<open>extract\<close> fail, and fail with the truncation error when the descriptors are
  accepted; no short buffer is returned.
\<close>

theorem get_sector_truncated_exactly:
  "(get_sector (int number) count handle = Inl TruncatedImageError \<longleftrightarrow>
      length (take (count * 512) (drop (number * 2048) (data handle))) < count * 512) \<and>
   (\<not> length (take (count * 512) (drop (number * 2048) (data handle))) < count * 512 \<longrightarrow>
      (\<exists>handle'. get_sector (int number) count handle =
         Inr (take (count * 512) (drop (number * 2048) (data handle)), handle')) \<and>
      length (take (count * 512) (drop (number * 2048) (data handle))) = count * 512) \<and>
   (0 < resolved_sector_count (data f) \<and>
    length (data f) + 1 = load_rba (data f) * 2048 + resolved_sector_count (data f) * 512 \<longrightarrow>
      (\<exists>e. extract DetailHandler (Some f) (Some h) = Inl e) \<and>
      (descriptors_accepted (data f) \<longrightarrow>
         extract DetailHandler (Some f) (Some h) = Inl TruncatedImageError))"
proof -
  define d where "d = data f"
  have short: "read_sectors (load_rba d) (resolved_sector_count d) d = Inl TruncatedImageError"
    if "0 < resolved_sector_count d"
      "length d + 1 = load_rba d * 2048 + resolved_sector_count d * 512"
    using that by (simp add: read_sectors_def Let_def)
  have err: "\<exists>e. extract_outcome d = Inl e"
    if "read_sectors (load_rba d) (resolved_sector_count d) d = Inl TruncatedImageError"
    using that by (simp add: extract_outcome_def)
  have acc: "extract_outcome d = Inl TruncatedImageError"
    if "read_sectors (load_rba d) (resolved_sector_count d) d = Inl TruncatedImageError"
      "descriptors_accepted d"
    using that by (simp add: extract_outcome_accepted)
  have a: "get_sector (int number) count handle = Inl TruncatedImageError \<longleftrightarrow>
        length (take (count * 512) (drop (number * 2048) (data handle))) < count * 512"
    by (simp add: get_sector_eq min_def mult.commute)
  have b: "\<not> length (take (count * 512) (drop (number * 2048) (data handle))) < count * 512 \<longrightarrow>
      (\<exists>handle'. get_sector (int number) count handle =
         Inr (take (count * 512) (drop (number * 2048) (data handle)), handle')) \<and>
      length (take (count * 512) (drop (number * 2048) (data handle))) = count * 512"
    by (simp add: get_sector_eq min_def mult.commute)
  from a b short err acc show ?thesis
    unfolding extract_DetailHandler d_def [symmetric] by blast
qed

theorem get_sector_truncated_exactly_witness:
  "0 < resolved_sector_count one_byte_short_image \<and>
   length one_byte_short_image + 1 =
     load_rba one_byte_short_image * 2048 + resolved_sector_count one_byte_short_image * 512 \<and>
   descriptors_accepted one_byte_short_image \<and>
   extract DetailHandler (source one_byte_short_image) (Some (new_handler None)) =
     Inl TruncatedImageError"
proof -
  have 1: "0 < resolved_sector_count one_byte_short_image"
    and 2: "length one_byte_short_image + 1 =
     load_rba one_byte_short_image * 2048 + resolved_sector_count one_byte_short_image * 512"
    by (simp_all add: one_byte_short_image_def resolved_no_emulation standard_image_fields
        length_standard_image)
  have 3: "descriptors_accepted one_byte_short_image"
    by (simp add: one_byte_short_image_def standard_image_accepted)
  from 1 2 3
    get_sector_truncated_exactly [of 0 0 "\<lparr>data = one_byte_short_image, pos = 0\<rparr>"
      "\<lparr>data = one_byte_short_image, pos = 0\<rparr>" "new_handler None"]
  show ?thesis by (simp add: source_def)
qed

text \<open>
  The claim as stated fails where the resolved sector count is 0: the source below is one
  byte shorter than \<open>load_rba * 2048 + 0 * 512\<close>, the final read asks for no byte, and
  \<open>extract\<close> returns the empty buffer.
\<close>

theorem zero_count_one_byte_short_succeeds:
  "length zero_count_short_image + 1 =
     load_rba zero_count_short_image * 2048 +
       resolved_sector_count zero_count_short_image * 512 \<and>
   descriptors_accepted zero_count_short_image \<and>
   extract DetailHandler (source zero_count_short_image) (Some (new_handler None)) = Inr []"
proof -
  have f: "media_type zero_count_short_image = 0" "sector_count zero_count_short_image = 0"
    "load_rba zero_count_short_image = 19"
    by (simp_all add: zero_count_short_image_def standard_fields)
  have l: "length zero_count_short_image = 38911"
    by (simp add: zero_count_short_image_def length_iso_image length_boot_sector
        length_catalog_sector fixture_lengths)
  have a: "descriptors_accepted zero_count_short_image"
    by (simp add: zero_count_short_image_def good_image_accepted)
  from f l a show ?thesis
    by (simp add: source_def extract_DetailHandler extract_outcome_accepted
        resolved_no_emulation read_sectors_def)
qed

subsection \<open>C5: hard-disk media\<close>

text \<open>
  C5. For a source whose descriptors are accepted and whose initial entry has media type
  4, the module reads the 512-byte block at physical sector \<open>load_rba\<close> (and fails with
  the truncation error if the source has not got it), takes bytes 446 to 461 as the
  partition table entry, with \<open>first_sector_lba\<close> at bytes 454 to 457 and
  \<open>sector_count_lba\<close> at bytes 458 to 461, and the candidate sector count is their sum;
  the image is read with this count (with the catalog count when the sum is 0). With
  \<open>first_sector_lba = 100\<close> and \<open>sector_count_lba = 200\<close> the resolved count is 300.
\<close>

theorem harddisk_count_from_partition_table:
  assumes "descriptors_accepted (data f)" and "media_type (data f) = 4"
  shows "partition_sector (data f) = take 512 (drop (load_rba (data f) * 2048) (data f)) \<and>
         first_sector_lba (data f) = le_uint (slice 454 458 (partition_sector (data f))) \<and>
         sector_count_lba (data f) = le_uint (slice 458 462 (partition_sector (data f))) \<and>
         (length (partition_sector (data f)) \<noteq> 512 \<longrightarrow>
            extract DetailHandler (Some f) (Some h) = Inl TruncatedImageError) \<and>
         (length (partition_sector (data f)) = 512 \<longrightarrow>
            candidate_sector_count (data f) =
              first_sector_lba (data f) + sector_count_lba (data f) \<and>
            extract DetailHandler (Some f) (Some h) =
              read_sectors (load_rba (data f))
                (if first_sector_lba (data f) + sector_count_lba (data f) = 0
                 then sector_count (data f)
                 else first_sector_lba (data f) + sector_count_lba (data f))
                (data f)) \<and>
         (length (partition_sector (data f)) = 512 \<and> first_sector_lba (data f) = 100 \<and>
          sector_count_lba (data f) = 200 \<longrightarrow>
            resolved_sector_count (data f) = 300 \<and>
            extract DetailHandler (Some f) (Some h) =
              read_sectors (load_rba (data f)) 300 (data f))"
  using assms
  by (simp add: extract_DetailHandler extract_outcome_accepted resolved_harddisk
      candidate_sector_count_def partition_sector_def first_sector_lba_def
      sector_count_lba_def)

theorem harddisk_count_from_partition_table_witness:
  "descriptors_accepted harddisk_image \<and> media_type harddisk_image = 4 \<and>
   length (partition_sector harddisk_image) = 512 \<and>
   first_sector_lba harddisk_image = 100 \<and> sector_count_lba harddisk_image = 200 \<and>
   resolved_sector_count harddisk_image = 300 \<and>
   extract DetailHandler (source harddisk_image) (Some (new_handler None)) =
     Inr harddisk_payload \<and>
   length harddisk_payload = 300 * 512"
proof -
  have a: "descriptors_accepted harddisk_image"
    by (simp add: harddisk_image_def standard_image_accepted)
  from harddisk_count_from_partition_table
         [of "\<lparr>data = harddisk_image, pos = 0\<rparr>" "new_handler None"]
       a harddisk_image_fields read_harddisk_image
  show ?thesis by (simp add: source_def harddisk_payload_def)
qed

subsection \<open>C6: floppy media\<close>

text \<open>
  C6. For a source whose descriptors are accepted, media types 1, 2 and 3 resolve to
  2400, 2880 and 5760 sectors, whatever the catalog's own sector count, and the image is
  read with that count; the three counts are the capacities of 1200, 1440 and 2880 KiB
  divided by 512, exactly.
\<close>

theorem floppy_sector_counts:
  assumes "descriptors_accepted (data f)"
  shows "(media_type (data f) = 1 \<longrightarrow>
            resolved_sector_count (data f) = 2400 \<and>
            extract DetailHandler (Some f) (Some h) =
              read_sectors (load_rba (data f)) 2400 (data f)) \<and>
         (media_type (data f) = 2 \<longrightarrow>
            resolved_sector_count (data f) = 2880 \<and>
            extract DetailHandler (Some f) (Some h) =
              read_sectors (load_rba (data f)) 2880 (data f)) \<and>
         (media_type (data f) = 3 \<longrightarrow>
            resolved_sector_count (data f) = 5760 \<and>
            extract DetailHandler (Some f) (Some h) =
              read_sectors (load_rba (data f)) 5760 (data f)) \<and>
         2400 * V_SECTOR_SIZE = 1200 * 1024 \<and>
         2880 * V_SECTOR_SIZE = 1440 * 1024 \<and>
         5760 * V_SECTOR_SIZE = 2880 * 1024"
  using assms
  by (simp add: extract_DetailHandler extract_outcome_accepted resolved_floppy
      V_SECTOR_SIZE_def)

theorem floppy_sector_counts_witness:
  "descriptors_accepted floppy_1200_image \<and> media_type floppy_1200_image = 1 \<and>
   sector_count floppy_1200_image = 7 \<and>
   extract DetailHandler (source floppy_1200_image) (Some (new_handler None)) =
     Inr (replicate (2400 * 512) 0x11) \<and>
   descriptors_accepted floppy_1440_image \<and> media_type floppy_1440_image = 2 \<and>
   extract DetailHandler (source floppy_1440_image) (Some (new_handler None)) =
     Inr (replicate (2880 * 512) 0x22) \<and>
   descriptors_accepted floppy_2880_image \<and> media_type floppy_2880_image = 3 \<and>
   extract DetailHandler (source floppy_2880_image) (Some (new_handler None)) =
     Inr (replicate (5760 * 512) 0x33)"
  using floppy_sector_counts [of "\<lparr>data = floppy_1200_image, pos = 0\<rparr>" "new_handler None"]
    floppy_sector_counts [of "\<lparr>data = floppy_1440_image, pos = 0\<rparr>" "new_handler None"]
    floppy_sector_counts [of "\<lparr>data = floppy_2880_image, pos = 0\<rparr>" "new_handler None"]
  by (simp add: source_def floppy_image_fields floppy_images_accepted read_floppy_images)

subsection \<open>C7: the validation entry\<close>

text \<open>
  C7 does not hold of the module. The catalog below has header id 0, so its validation
  entry is invalid, and a manufacturer field that starts with the byte 0xFF: \<open>extract\<close>
  ends in \<open>UnicodeDecodeError\<close>, raised when the manufacturer is decoded for the
  handler, before the validation check is reached. (With an ASCII manufacturer field the
  check is as claimed: lemmas \<open>validation_entry_checked\<close>, \<open>swapped_key_rejected\<close> and
  \<open>unknown_platform_accepted\<close>.)
\<close>

theorem non_ascii_manufacturer_hides_validation:
  "header_id non_ascii_manufacturer_image = 0 \<and>
   \<not> validation_ok non_ascii_manufacturer_image \<and>
   extract DetailHandler (source non_ascii_manufacturer_image) (Some (new_handler None)) =
     Inl UnicodeDecodeError"
proof -
  have l: "length (0xFF # replicate 23 (0 :: byte)) = 24" by simp
  note b = good_boot_fields
  note c = image_catalog [OF fixture_lengths(1,2) l]
    image_catalog_fields [OF fixture_lengths(1,2) l]
  have n: "\<not> is_ascii (0xFF # replicate 23 (0 :: byte))" by (simp add: is_ascii_def)
  show ?thesis
    by (simp add: source_def extract_DetailHandler extract_outcome_def
        non_ascii_manufacturer_image_def b c n length_boot_sector length_catalog_sector
        fixture_lengths cd001_text el_torito_specifier_text good_boot_record_ok
        validation_ok_def)
qed

theorem non_ascii_manufacturer_hides_validation_witness:
  "extract DetailHandler (source non_ascii_manufacturer_image) (Some (new_handler None)) \<noteq>
     Inl InvalidValidationEntryError"
  using non_ascii_manufacturer_hides_validation by simp

subsection \<open>C8: the boot record\<close>

text \<open>
  C8, as amended. The boot record is the 512 bytes at physical sector 17. When its
  identifier and specifier fields are ASCII, \<open>extract\<close> fails with the not-bootable
  error exactly when the identifier is not \<open>CD001\<close> or the specifier, stripped of
  surrounding whitespace, filtered to upper-case letters and spaces and stripped again,
  is not \<open>EL TORITO SPECIFICATION\<close>. The identifier \<open>CD002\<close> is rejected, and a
  rejection depends on sector 17 alone: whatever the rest of the source holds, the
  catalog has no part in it.
\<close>

theorem boot_record_rejected_exactly:
  assumes "length (boot_record (data f)) = 512"
    and "is_ascii (boot_system_identifier (data f))"
    and "is_ascii (boot_system_specifier (data f))"
  shows "(extract DetailHandler (Some f) (Some h) = Inl NotBootableError \<longleftrightarrow>
            ascii_text (boot_system_identifier (data f)) \<noteq> ''CD001'' \<or>
            compared_specifier (data f) \<noteq> ''EL TORITO SPECIFICATION'') \<and>
         (ascii_text (boot_system_identifier (data f)) = ''CD002'' \<longrightarrow>
            extract DetailHandler (Some f) (Some h) = Inl NotBootableError) \<and>
         (extract DetailHandler (Some f) (Some h) = Inl NotBootableError \<longrightarrow>
            (\<forall>f' h'. boot_record (data f') = boot_record (data f) \<longrightarrow>
               extract DetailHandler (Some f') (Some h') = Inl NotBootableError))"
proof -
  have iff: "extract DetailHandler (Some g) (Some k) = Inl NotBootableError \<longleftrightarrow>
      \<not> boot_record_ok (data g)"
    if "length (boot_record (data g)) = 512" "is_ascii (boot_system_identifier (data g))"
      "is_ascii (boot_system_specifier (data g))" for g k
    using that
    by (auto simp: extract_DetailHandler extract_outcome_def read_sectors_def Let_def)
  have same: "boot_system_identifier (data f') = boot_system_identifier (data f) \<and>
      boot_system_specifier (data f') = boot_system_specifier (data f) \<and>
      boot_record_ok (data f') = boot_record_ok (data f)"
    if "boot_record (data f') = boot_record (data f)" for f'
    using that
    by (simp add: boot_system_identifier_def boot_system_specifier_def boot_record_ok_def
        compared_specifier_def)
  have 1: "extract DetailHandler (Some f) (Some h) = Inl NotBootableError \<longleftrightarrow>
            ascii_text (boot_system_identifier (data f)) \<noteq> ''CD001'' \<or>
            compared_specifier (data f) \<noteq> ''EL TORITO SPECIFICATION''"
    using iff [OF assms] by (auto simp: boot_record_ok_def)
  have 2: "ascii_text (boot_system_identifier (data f)) = ''CD002'' \<longrightarrow>
            extract DetailHandler (Some f) (Some h) = Inl NotBootableError"
    using 1 by simp
  have 3: "extract DetailHandler (Some f') (Some h') = Inl NotBootableError"
    if "extract DetailHandler (Some f) (Some h) = Inl NotBootableError"
      "boot_record (data f') = boot_record (data f)" for f' h'
  proof -
    from that(1) iff [OF assms] have "\<not> boot_record_ok (data f)" by simp
    with same [OF that(2)] assms that(2) iff [of f' h'] show ?thesis by simp
  qed
  from 1 2 3 show ?thesis by blast
qed

theorem boot_record_rejected_exactly_witness:
  "length (boot_record cd002_image) = 512 \<and>
   is_ascii (boot_system_identifier cd002_image) \<and>
   is_ascii (boot_system_specifier cd002_image) \<and>
   ascii_text (boot_system_identifier cd002_image) = ''CD002'' \<and>
   extract DetailHandler (source cd002_image) (Some (new_handler None)) = Inl NotBootableError"
proof -
  note b = image_boot_fields [OF cd002_text(1) el_torito_specifier_text(1)]
  have h: "length (boot_record cd002_image) = 512"
    "is_ascii (boot_system_identifier cd002_image)"
    "is_ascii (boot_system_specifier cd002_image)"
    "ascii_text (boot_system_identifier cd002_image) = ''CD002''"
    by (simp_all add: cd002_image_def b length_boot_sector el_torito_specifier_text
        cd002_text)
  from h boot_record_rejected_exactly [of "\<lparr>data = cd002_image, pos = 0\<rparr>" "new_handler None"]
  show ?thesis by (simp add: source_def)
qed

text \<open>
  The claim as stated fails where the filtered specifier differs from the expected text
  only by surrounding spaces: the source strips the filtered text before comparing. The
  specifier below filters to the expected text with a leading space, and \<open>extract\<close>
  goes on to the catalog and returns the image.
\<close>

theorem padded_specifier_accepted:
  "ascii_text (boot_system_identifier padded_specifier_image) = ''CD001'' \<and>
   filtered_specifier padded_specifier_image = '' EL TORITO SPECIFICATION'' \<and>
   filtered_specifier padded_specifier_image \<noteq> ''EL TORITO SPECIFICATION'' \<and>
   filter upper_or_space (strip (ascii_text (boot_system_specifier padded_specifier_image))) =
     '' EL TORITO SPECIFICATION'' \<and>
   extract DetailHandler (source padded_specifier_image) (Some (new_handler None)) =
     Inr (replicate 20480 0xAB)"
proof -
  note l = cd001_text(1) padded_specifier_text(1) no_manufacturer_text(1)
  note b = image_boot_fields [OF l(1,2)]
  have a: "descriptors_accepted padded_specifier_image"
    unfolding padded_specifier_image_def
    by (rule image_accepted)
      (simp_all add: cd001_text padded_specifier_text padded_specifier_compared)
  have f: "filtered_specifier padded_specifier_image = '' EL TORITO SPECIFICATION''"
    by (simp add: filtered_specifier_def padded_specifier_image_def b
        padded_specifier_filtered)
  have e: "extract DetailHandler (source padded_specifier_image) (Some (new_handler None)) =
     Inr (replicate 20480 0xAB)"
    using a
    by (simp add: source_def extract_DetailHandler extract_outcome_accepted)
      (simp add: padded_specifier_image_def image_catalog_fields [OF l] resolved_no_emulation
        image_payload [OF l, where st = 25 and gap = 13824, simplified])
  have i: "ascii_text (boot_system_identifier padded_specifier_image) = ''CD001''"
    by (simp add: padded_specifier_image_def b cd001_text)
  have g: "filter upper_or_space
      (strip (ascii_text (boot_system_specifier padded_specifier_image))) =
     '' EL TORITO SPECIFICATION''"
    by (simp add: padded_specifier_image_def b padded_specifier_stripped_filtered)
  from i f g e show ?thesis by simp
qed

subsection \<open>C9: positive sector counts\<close>

text \<open>
  C9, as amended. Whenever \<open>extract\<close> succeeds, the buffer has
  \<open>resolved_sector_count * 512\<close> bytes, and the resolved sector count is positive for
  media types 1, 2 and 3; for media type 4 it is positive exactly when the partition
  extent \<open>first_sector_lba + sector_count_lba\<close> or the catalog's sector count is.
\<close>

theorem emulated_media_positive_count:
  assumes "extract DetailHandler (Some f) (Some h) = Inr buf"
  shows "length buf = resolved_sector_count (data f) * 512 \<and>
         (media_type (data f) = 1 \<or> media_type (data f) = 2 \<or> media_type (data f) = 3 \<longrightarrow>
            0 < resolved_sector_count (data f)) \<and>
         (media_type (data f) = 4 \<longrightarrow>
            (0 < resolved_sector_count (data f) \<longleftrightarrow>
               0 < first_sector_lba (data f) + sector_count_lba (data f) \<or>
               0 < sector_count (data f)))"
proof -
  from assms
  have "read_sectors (load_rba (data f)) (resolved_sector_count (data f)) (data f) = Inr buf"
    by (simp add: extract_DetailHandler extract_outcome_Inr)
  from read_sectors_Inr [OF this, THEN conjunct2]
  show ?thesis by (auto simp: resolved_floppy resolved_harddisk)
qed

theorem emulated_media_positive_count_witness:
  "extract DetailHandler (source floppy_1440_image) (Some (new_handler None)) =
     Inr (replicate 1474560 0x22) \<and>
   media_type floppy_1440_image = 2 \<and>
   0 < resolved_sector_count floppy_1440_image \<and>
   length (replicate 1474560 (0x22 :: byte)) = resolved_sector_count floppy_1440_image * 512"
proof -
  have e: "extract DetailHandler (Some \<lparr>data = floppy_1440_image, pos = 0\<rparr>)
      (Some (new_handler None)) = Inr (replicate 1474560 0x22)"
    by (simp add: extract_DetailHandler extract_outcome_accepted floppy_images_accepted
        floppy_image_fields resolved_floppy read_floppy_images)
  from emulated_media_positive_count [OF e] e show ?thesis
    by (simp add: source_def floppy_image_fields)
qed

text \<open>
  The claim as stated fails for media type 4: with an empty partition table entry and a
  catalog sector count of 0 the resolved count is 0, the final read asks for no byte, and
  \<open>extract\<close> succeeds with the empty buffer.
\<close>

theorem empty_harddisk_resolves_to_zero:
  "media_type empty_harddisk_image = 4 \<and>
   resolved_sector_count empty_harddisk_image = 0 \<and>
   extract DetailHandler (source empty_harddisk_image) (Some (new_handler None)) = Inr []"
proof -
  have "descriptors_accepted empty_harddisk_image"
    by (simp add: empty_harddisk_image_def standard_image_accepted)
  then show ?thesis
    by (simp add: source_def extract_DetailHandler extract_outcome_accepted
        empty_harddisk_fields resolved_harddisk read_sectors_none)
qed

subsection \<open>C10: the fallback to the catalog's sector count\<close>

text \<open>
  C10. For a source whose descriptors are accepted, the candidate sector count is 0 for
  media type 0 and for every media type above 4, and for media type 4 when the partition
  extent sums to 0; in each of these cases the image is read with the catalog's own
  sector count. A media type above 4 is no error: when the source holds the bytes,
  \<open>extract\<close> returns them.
\<close>

theorem zero_candidate_falls_back_to_catalog_count:
  assumes "descriptors_accepted (data f)"
  shows "(media_type (data f) = 0 \<or> 4 < media_type (data f) \<longrightarrow>
            candidate_sector_count (data f) = 0 \<and>
            extract DetailHandler (Some f) (Some h) =
              read_sectors (load_rba (data f)) (sector_count (data f)) (data f)) \<and>
         (media_type (data f) = 4 \<and> length (partition_sector (data f)) = 512 \<and>
          first_sector_lba (data f) + sector_count_lba (data f) = 0 \<longrightarrow>
            candidate_sector_count (data f) = 0 \<and>
            extract DetailHandler (Some f) (Some h) =
              read_sectors (load_rba (data f)) (sector_count (data f)) (data f)) \<and>
         (4 < media_type (data f) \<and>
          load_rba (data f) * 2048 + sector_count (data f) * 512 \<le> length (data f) \<longrightarrow>
            extract DetailHandler (Some f) (Some h) =
              Inr (take (sector_count (data f) * 512)
                    (drop (load_rba (data f) * 2048) (data f))))"
  using assms
  by (auto simp: extract_DetailHandler extract_outcome_accepted resolved_no_emulation
      resolved_unknown resolved_harddisk candidate_sector_count_def read_sectors_def Let_def)

theorem zero_candidate_falls_back_witness:
  "descriptors_accepted unknown_media_image \<and> media_type unknown_media_image = 9 \<and>
   sector_count unknown_media_image = 3 \<and>
   extract DetailHandler (source unknown_media_image) (Some (new_handler None)) =
     Inr (replicate (3 * 512) 0x44)"
proof -
  have a: "descriptors_accepted unknown_media_image"
    by (simp add: unknown_media_image_def standard_image_accepted)
  from zero_candidate_falls_back_to_catalog_count
         [of "\<lparr>data = unknown_media_image, pos = 0\<rparr>" "new_handler None"] a
  show ?thesis by (simp add: source_def unknown_media_fields read_unknown_media)
qed

end
